theory Spec2Isabelle
  imports Complex_Main "HOL-Library.Sublist" "HOL-Library.Monad_Syntax" "HOL-Library.Multiset"
begin

section \<open>JavaScript strings\<close>

text \<open>
  A JavaScript string is a sequence of UTF-16 code units. The model uses \<open>string\<close>; a
  \<open>char\<close> stands for a code unit in the range 0..255, so the white space of that range
  is TAB, LF, VT, FF, CR, SP and NBSP, and its line terminators are LF and CR.
\<close>

definition isWhiteSpace :: "char \<Rightarrow> bool" where
  \<comment> \<open>what \<open>String.prototype.trim\<close> strips and what \<open>\s\<close> matches\<close>
  "isWhiteSpace c =
     (c \<in> set [CHR 0x09, CHR 0x0A, CHR 0x0B, CHR 0x0C, CHR 0x0D, CHR 0x20, CHR 0xA0])"

definition isLineTerminator :: "char \<Rightarrow> bool" where
  \<comment> \<open>what \<open>.\<close> does not match in a regular expression without the \<open>s\<close> flag\<close>
  "isLineTerminator c = (c \<in> set [CHR 0x0A, CHR 0x0D])"

definition isDigit :: "char \<Rightarrow> bool" where
  \<comment> \<open>\<open>\d\<close>\<close>
  "isDigit c = (c \<in> set ''0123456789'')"

definition isDigitOrQuestion :: "char \<Rightarrow> bool" where
  \<comment> \<open>\<open>[\d?]\<close>\<close>
  "isDigitOrQuestion c = (isDigit c \<or> c = CHR ''?'')"

definition isLetter :: "char \<Rightarrow> bool" where
  \<comment> \<open>\<open>[A-Za-z]\<close>\<close>
  "isLetter c =
     (c \<in> set ''ABCDEFGHIJKLMNOPQRSTUVWXYZabcdefghijklmnopqrstuvwxyz'')"

definition trimStart :: "string \<Rightarrow> string" where
  "trimStart s = dropWhile isWhiteSpace s"

definition trim :: "string \<Rightarrow> string" where
  "trim s = rev (dropWhile isWhiteSpace (rev (dropWhile isWhiteSpace s)))"

definition startsWith :: "string \<Rightarrow> string \<Rightarrow> bool" where
  \<comment> \<open>\<open>s.startsWith(p)\<close>\<close>
  "startsWith s p = prefix p s"

fun includes_str :: "string \<Rightarrow> string \<Rightarrow> bool" where
  \<comment> \<open>\<open>s.includes(p)\<close>: \<open>p\<close> occurs at some position of \<open>s\<close>\<close>
  "includes_str [] p = (p = [])"
| "includes_str (c # cs) p = (prefix p (c # cs) \<or> includes_str cs p)"

fun split :: "char \<Rightarrow> string \<Rightarrow> string list" where
  \<comment> \<open>\<open>s.split(sep)\<close> for a one-character separator; the result is never empty, so the
      first branch of the \<open>case\<close> is not reached\<close>
  "split sep [] = [[]]"
| "split sep (c # cs) =
     (if c = sep then [] # split sep cs
      else (case split sep cs of [] \<Rightarrow> [[c]] | l # ls \<Rightarrow> (c # l) # ls))"

definition orElse :: "string \<Rightarrow> string \<Rightarrow> string" where
  \<comment> \<open>\<open>a || b\<close> on strings: the empty string is the only falsy string\<close>
  "orElse a b = (if a \<noteq> [] then a else b)"

fun decimal :: "nat \<Rightarrow> string" where
  \<comment> \<open>a non-negative integer in a template literal\<close>
  "decimal n =
     (if n < 10 then [''0123456789'' ! n]
      else decimal (n div 10) @ [''0123456789'' ! (n mod 10)])"

declare decimal.simps [simp del]

subsection \<open>The regular expressions of the scraper\<close>

text \<open>
  Each regular expression of the source is written as a matcher at a position, built from
  \<open>lit\<close> (a literal) and \<open>rep\<close> (a greedy repetition of a character class), and
  \<open>search\<close> tries the positions from left to right as an unanchored \<open>match\<close> does.
  \<open>rep\<close> commits to the longest run within its bounds. In every expression below the
  token after a repetition starts with a character outside the repeated class (or, for
  \<open>\d{1,2},\<close>, a shorter run is followed by a digit, not the comma), so backtracking into
  the repetition can never succeed and the committed matcher finds the same match.
\<close>

definition lit :: "string \<Rightarrow> string \<Rightarrow> string option" where
  "lit p s = (if prefix p s then Some (drop (length p) s) else None)"

definition rep :: "(char \<Rightarrow> bool) \<Rightarrow> nat \<Rightarrow> nat option \<Rightarrow> string \<Rightarrow> (string \<times> string) option" where
  "rep P lo hi s =
     (let run = takeWhile P s;
          n = (case hi of None \<Rightarrow> length run | Some h \<Rightarrow> min h (length run))
      in if n < lo then None else Some (take n s, drop n s))"

fun search :: "(string \<Rightarrow> 'a option) \<Rightarrow> string \<Rightarrow> 'a option" where
  "search m [] = m []"
| "search m (c # cs) = (case m (c # cs) of Some r \<Rightarrow> Some r | None \<Rightarrow> search m cs)"

definition animeIdAt :: "string \<Rightarrow> string option" where
  \<comment> \<open>\<open>\/anime\/(\d+)\/\<close>, returning group 1\<close>
  "animeIdAt s = do {
     r \<leftarrow> lit ''/anime/'' s;
     (ds, r') \<leftarrow> rep isDigit 1 None r;
     _ \<leftarrow> lit ''/'' r';
     Some ds }"

definition epAt :: "string \<Rightarrow> string option" where
  \<comment> \<open>\<open>([\d?]+)\s+eps\<close>, returning group 1\<close>
  "epAt s = do {
     (tok, r) \<leftarrow> rep isDigitOrQuestion 1 None s;
     (_, r') \<leftarrow> rep isWhiteSpace 1 None r;
     _ \<leftarrow> lit ''eps'' r';
     Some tok }"

definition durAt :: "string \<Rightarrow> string option" where
  \<comment> \<open>\<open>(\d+)\s+min\<close>, returning group 1\<close>
  "durAt s = do {
     (tok, r) \<leftarrow> rep isDigit 1 None s;
     (_, r') \<leftarrow> rep isWhiteSpace 1 None r;
     _ \<leftarrow> lit ''min'' r';
     Some tok }"

definition dateAt :: "string \<Rightarrow> unit option" where
  \<comment> \<open>\<open>[A-Za-z]{3}\s+\d{1,2},\s+\d{4}\<close>; the source anchors it with \<open>^\<close>\<close>
  "dateAt s = do {
     (_, r1) \<leftarrow> rep isLetter 3 (Some 3) s;
     (_, r2) \<leftarrow> rep isWhiteSpace 1 None r1;
     (_, r3) \<leftarrow> rep isDigit 1 (Some 2) r2;
     r4 \<leftarrow> lit '','' r3;
     (_, r5) \<leftarrow> rep isWhiteSpace 1 None r4;
     (_, _) \<leftarrow> rep isDigit 4 (Some 4) r5;
     Some () }"

definition rasterExtensions :: "string list" where
  "rasterExtensions = [''jpg'', ''jpeg'', ''png'', ''gif'']"

definition queryToEnd :: "string \<Rightarrow> bool" where
  \<comment> \<open>\<open>(\?.*)?$\<close>: nothing is left, or a question mark and then no line terminator up
      to the end of the string\<close>
  "queryToEnd s =
     (case s of [] \<Rightarrow> True
      | c # cs \<Rightarrow> c = CHR ''?'' \<and> \<not> list_ex isLineTerminator cs)"

definition extAt :: "string \<Rightarrow> bool" where
  \<comment> \<open>\<open>\.(jpg|jpeg|png|gif)(\?.*)?$\<close>; no string starts with two of the alternatives
      (\<open>jpg\<close> and \<open>jpeg\<close> differ in the third letter), and a match runs to the end
      of the string\<close>
  "extAt s =
     (case lit ''.'' s of None \<Rightarrow> False
      | Some r \<Rightarrow>
          list_ex (\<lambda>ext. case lit ext r of None \<Rightarrow> False | Some t \<Rightarrow> queryToEnd t)
            rasterExtensions)"

fun replaceExt :: "string \<Rightarrow> string" where
  \<comment> \<open>\<open>s.replace(/\.(jpg|jpeg|png|gif)(\?.*)?$/, '.webp')\<close>: the leftmost match, which
      runs to the end of the string, is replaced\<close>
  "replaceExt [] = []"
| "replaceExt (c # cs) = (if extAt (c # cs) then ''.webp'' else c # replaceExt cs)"

definition removeCommas :: "string \<Rightarrow> string" where
  \<comment> \<open>\<open>s.replace(/,/g, '')\<close>\<close>
  "removeCommas s = filter (\<lambda>c. c \<noteq> CHR '','') s"

section \<open>JavaScript numbers\<close>

text \<open>
  A Number is an IEEE double. \<open>Number r\<close> stands for the double nearest to the rational
  \<open>r\<close> (ties to even); rounding inside the finite range is not computed, and the sign of
  zero is not kept. A value of magnitude at least \<open>2^1024 - 2^970\<close> rounds to an infinity.
\<close>

datatype jsnumber = NaN | PosInfinity | NegInfinity | Number rat

definition roundNumber :: "rat \<Rightarrow> jsnumber" where
  "roundNumber r =
     (if 2 ^ 1024 - 2 ^ 970 \<le> r then PosInfinity
      else if r \<le> - (2 ^ 1024 - 2 ^ 970) then NegInfinity
      else Number r)"

definition isHexDigit :: "char \<Rightarrow> bool" where
  "isHexDigit c = (c \<in> set ''0123456789abcdefABCDEF'')"

definition digitValue :: "char \<Rightarrow> nat" where
  "digitValue c =
     (if isDigit c then of_char c - 48
      else if c \<in> set ''abcdef'' then of_char c - 87
      else of_char c - 55)"

definition digitsValue :: "nat \<Rightarrow> string \<Rightarrow> nat" where
  "digitsValue radix ds = foldl (\<lambda>a c. radix * a + digitValue c) 0 ds"

definition signed :: "string \<Rightarrow> bool \<times> string" where
  \<comment> \<open>an optional sign: whether it is a minus, and what follows it\<close>
  "signed s =
     (case s of [] \<Rightarrow> (False, s)
      | c # r \<Rightarrow>
          if c = CHR ''-'' then (True, r)
          else if c = CHR ''+'' then (False, r)
          else (False, s))"

definition exponentPart :: "string \<Rightarrow> int" where
  \<comment> \<open>\<open>ExponentPart\<close>: \<open>e\<close> or \<open>E\<close>, an optional sign and at least one digit; 0 when
      the string does not start with one\<close>
  "exponentPart s =
     (case s of [] \<Rightarrow> 0
      | c # r \<Rightarrow>
          if c = CHR ''e'' \<or> c = CHR ''E'' then
            (let (neg, r') = signed r; ds = takeWhile isDigit r'
             in if ds = [] then 0
                else if neg then - int (digitsValue 10 ds) else int (digitsValue 10 ds))
          else 0)"

definition pow10 :: "int \<Rightarrow> rat" where
  "pow10 e = (if 0 \<le> e then 10 ^ nat e else 1 / 10 ^ nat (- e))"

definition parseFloat :: "string \<Rightarrow> jsnumber" where
  \<comment> \<open>the longest prefix of the left-trimmed string that is a \<open>StrDecimalLiteral\<close>\<close>
  "parseFloat input =
     (let (neg, u) = signed (trimStart input) in
      if startsWith u ''Infinity'' then (if neg then NegInfinity else PosInfinity)
      else
        (let ip = takeWhile isDigit u;
             r1 = dropWhile isDigit u;
             (fp, r2) = (case lit ''.'' r1 of
                           None \<Rightarrow> ([], r1)
                         | Some r \<Rightarrow> (takeWhile isDigit r, dropWhile isDigit r))
         in if ip = [] \<and> fp = [] then NaN
            else
              (let mv = of_nat (digitsValue 10 (ip @ fp))
                          * pow10 (exponentPart r2 - int (length fp))
               in roundNumber (if neg then - mv else mv))))"

definition parseInt :: "string \<Rightarrow> jsnumber" where
  \<comment> \<open>\<open>parseInt(s)\<close> with no radix: base 16 after \<open>0x\<close> or \<open>0X\<close>, base 10 otherwise\<close>
  "parseInt input =
     (let (neg, s) = signed (trimStart input);
          (radix, z) = (if startsWith s ''0x'' \<or> startsWith s ''0X''
                        then (16, drop 2 s) else (10, s));
          ds = takeWhile (if radix = 16 then isHexDigit else isDigit) z
      in if ds = [] then NaN
         else
           (let v = of_nat (digitsValue radix ds)
            in roundNumber (if neg then - v else v)))"

section \<open>The parsed document\<close>

text \<open>
  The markup is parsed and queried by the cheerio library, which is not part of the
  repository. The model takes the parser as a parameter \<open>load\<close> and a parsed document as
  what the scraper's queries return on it: the elements that carry a
  \<open>js-seasonal-anime-list-key-...\<close> class, in document order, each with its class names
  and the \<open>.seasonal-anime\<close> elements below it, and for each of these the texts and
  attributes the scraper reads. A query that selects no element has the empty text and
  no attribute. The containers of one day are taken not to lie inside one another, so
  that \<open>find\<close> lists the entries of the selected containers one after the other.
\<close>

record anime_element =
  link_title_href :: "string option"  \<comment> \<open>\<open>find('.title .link-title').first().attr('href')\<close>\<close>
  link_title_text :: string           \<comment> \<open>\<open>find('.title .link-title').first().text()\<close>\<close>
  js_title_text :: string             \<comment> \<open>\<open>find('.js-title').first().text()\<close>\<close>
  js_score_text :: string             \<comment> \<open>\<open>find('.js-score').first().text()\<close>\<close>
  score_text :: string                \<comment> \<open>\<open>find('.score').first().text()\<close>\<close>
  js_members_text :: string           \<comment> \<open>\<open>find('.js-members').first().text()\<close>\<close>
  img_data_src :: "string option"     \<comment> \<open>\<open>find('.image img').first().attr('data-src')\<close>\<close>
  img_src :: "string option"          \<comment> \<open>\<open>... .attr('src')\<close>\<close>
  img_data_lazy_src :: "string option"  \<comment> \<open>\<open>... .attr('data-lazy-src')\<close>\<close>
  info_text :: string                 \<comment> \<open>\<open>find('.info').first().text()\<close>\<close>

record container =
  class_names :: "string list"
  seasonal_anime :: "anime_element list"

type_synonym document = "container list"

definition select :: "document \<Rightarrow> string \<Rightarrow> container list" where
  \<comment> \<open>\<open>$('.' + cls)\<close>\<close>
  "select doc cls = filter (\<lambda>c. cls \<in> set (class_names c)) doc"

definition find_seasonal_anime :: "container list \<Rightarrow> anime_element list" where
  \<comment> \<open>\<open>dayContainer.find('.seasonal-anime')\<close>\<close>
  "find_seasonal_anime cs = concat (map seasonal_anime cs)"

section \<open>The scraper\<close>

record anime_data =
  malId :: "string option"      \<comment> \<open>the field \<open>id\<close>\<close>
  title :: string
  score :: "jsnumber option"
  members :: "jsnumber option"
  imageUrl :: "string option"
  day :: string
  aired :: "string option"
  episodes :: "string option"
  duration :: "string option"

record day_schedule =
  dayName :: string             \<comment> \<open>the field \<open>day\<close>\<close>
  anime :: "anime_data list"

definition dayMappings :: "(string \<times> string) list" where
  \<comment> \<open>the object literal, in the order \<open>Object.keys\<close> lists its keys\<close>
  "dayMappings =
     [(''monday'', ''Monday''), (''tuesday'', ''Tuesday''), (''wednesday'', ''Wednesday''),
      (''thursday'', ''Thursday''), (''friday'', ''Friday''), (''saturday'', ''Saturday''),
      (''sunday'', ''Sunday''), (''other'', ''Other''), (''unknown'', ''Unknown'')]"

definition truthy :: "string option \<Rightarrow> bool" where
  \<comment> \<open>of a value that is a string or \<open>undefined\<close>\<close>
  "truthy v = (case v of None \<Rightarrow> False | Some s \<Rightarrow> s \<noteq> [])"

definition orUndefined :: "string option \<Rightarrow> string option \<Rightarrow> string option" where
  \<comment> \<open>\<open>a || b\<close> on such values\<close>
  "orUndefined a b = (if truthy a then a else b)"

definition malIdOf :: "anime_element \<Rightarrow> string option" where
  "malIdOf el =
     (let href = (case link_title_href el of None \<Rightarrow> [] | Some h \<Rightarrow> h)
      in case search animeIdAt href of
           None \<Rightarrow> None
         | Some ds \<Rightarrow> if ds \<noteq> [] then Some ds else None)"

definition titleOf :: "anime_element \<Rightarrow> string" where
  "titleOf el = orElse (trim (link_title_text el)) (trim (js_title_text el))"

definition scoreText :: "anime_element \<Rightarrow> string" where
  "scoreText el = orElse (trim (js_score_text el)) (trim (score_text el))"

definition scoreOf :: "string \<Rightarrow> jsnumber option" where
  "scoreOf st =
     (if st \<noteq> [] \<and> st \<noteq> ''N/A'' \<and> st \<noteq> ''?'' \<and> length st > 0
      then Some (parseFloat st) else None)"

definition membersText :: "anime_element \<Rightarrow> string" where
  "membersText el = trim (js_members_text el)"

definition membersOf :: "string \<Rightarrow> jsnumber option" where
  "membersOf mt =
     (if mt \<noteq> [] \<and> length mt > 0 then Some (parseInt (removeCommas mt)) else None)"

definition normalizeImageUrl :: "string \<Rightarrow> string" where
  \<comment> \<open>the body of \<open>if (imageUrl) { ... }\<close>\<close>
  "normalizeImageUrl imageUrl0 =
     (let imageUrl1 =
            (if \<not> startsWith imageUrl0 ''http'' then
               (if startsWith imageUrl0 ''//'' then ''https:'' @ imageUrl0
                else if startsWith imageUrl0 ''/'' then ''https://myanimelist.net'' @ imageUrl0
                else imageUrl0)
             else imageUrl0)
      in if \<not> includes_str imageUrl1 ''.webp'' then replaceExt imageUrl1 else imageUrl1)"

definition imageUrlOf :: "anime_element \<Rightarrow> string option" where
  "imageUrlOf el =
     (let imageUrl0 =
            orUndefined (orUndefined (img_data_src el) (img_src el)) (img_data_lazy_src el);
          imageUrl1 =
            (if truthy imageUrl0 then map_option normalizeImageUrl imageUrl0 else imageUrl0)
      in if truthy imageUrl1 then imageUrl1 else None)"

type_synonym info_fields = "string option \<times> string option \<times> string option"

definition scanLine :: "info_fields \<Rightarrow> string \<Rightarrow> info_fields" where
  \<comment> \<open>one round of the loop over the lines; the state is (aired, episodes, duration)\<close>
  "scanLine st line =
     (case st of (aired0, episodes0, duration0) \<Rightarrow>
        if includes_str line ''eps'' then
          (aired0,
           (case search epAt line of None \<Rightarrow> episodes0 | Some tok \<Rightarrow> Some tok),
           (case search durAt line of None \<Rightarrow> duration0 | Some tok \<Rightarrow> Some (tok @ '' min'')))
        else
          ((case dateAt line of None \<Rightarrow> aired0 | Some _ \<Rightarrow> Some line),
           episodes0, duration0))"

definition infoLines :: "string \<Rightarrow> string list" where
  "infoLines infoText = filter (\<lambda>line. line \<noteq> []) (map trim (split CHR 0x0A infoText))"

definition infoOf :: "anime_element \<Rightarrow> info_fields" where
  "infoOf el =
     (let infoText = trim (info_text el)
      in if infoText \<noteq> [] then foldl scanLine (None, None, None) (infoLines infoText)
         else (None, None, None))"

definition animeDataOf :: "string \<Rightarrow> anime_element \<Rightarrow> anime_data" where
  "animeDataOf dn el =
     (case infoOf el of (aired0, episodes0, duration0) \<Rightarrow>
        \<lparr> malId = malIdOf el,
          title = orElse (titleOf el) ''Unknown Title'',
          score = scoreOf (scoreText el),
          members = membersOf (membersText el),
          imageUrl = imageUrlOf el,
          day = dn,
          aired = aired0,
          episodes = episodes0,
          duration = duration0 \<rparr>)"

definition hasTitle :: "anime_data \<Rightarrow> bool" where
  \<comment> \<open>the test before \<open>animeList.push\<close>\<close>
  "hasTitle animeData = (title animeData \<noteq> [] \<and> title animeData \<noteq> ''Unknown Title'')"

definition animeListOf :: "string \<Rightarrow> anime_element list \<Rightarrow> anime_data list" where
  \<comment> \<open>the \<open>each\<close> loop over the entries of one day\<close>
  "animeListOf dn els =
     foldl (\<lambda>animeList el.
              let animeData = animeDataOf dn el
              in if hasTitle animeData then animeList @ [animeData] else animeList)
       [] els"

definition pushDay :: "document \<Rightarrow> day_schedule list \<Rightarrow> string \<times> string \<Rightarrow> day_schedule list" where
  \<comment> \<open>one round of the \<open>forEach\<close> over the day keys\<close>
  "pushDay doc schedule0 kv =
     (case kv of (dayKey, dn) \<Rightarrow>
        (let dayContainer = select doc (''js-seasonal-anime-list-key-'' @ dayKey)
         in if length dayContainer > 0
            then schedule0 @ [\<lparr> dayName = dn,
                                anime = animeListOf dn (find_seasonal_anime dayContainer) \<rparr>]
            else schedule0))"

definition scrapeDocument :: "document \<Rightarrow> day_schedule list" where
  \<comment> \<open>\<open>scrapeAnimeSchedule\<close> from the parsed document on\<close>
  "scrapeDocument doc =
     filter (\<lambda>daySchedule. length (anime daySchedule) > 0)
       (foldl (pushDay doc) [] dayMappings)"

datatype js_error = Error string  \<comment> \<open>an exception with its \<open>message\<close>\<close>

record response =
  ok :: bool
  status :: nat
  body_text :: "js_error + string"  \<comment> \<open>what \<open>await response.text()\<close> throws or returns\<close>

datatype fetch_outcome = Rejected js_error | Resolved response

definition scrapeAnimeSchedule ::
  "(string \<Rightarrow> document) \<Rightarrow> fetch_outcome \<Rightarrow> js_error + day_schedule list" where
  \<comment> \<open>\<open>Inl\<close> is the exception thrown; the \<open>catch\<close> block logs it and throws it again\<close>
  "scrapeAnimeSchedule load outcome =
     (case outcome of
        Rejected e \<Rightarrow> Inl e
      | Resolved r \<Rightarrow>
          if \<not> ok r then Inl (Error (''Failed to fetch schedule: '' @ decimal (status r)))
          else (case body_text r of
                  Inl e \<Rightarrow> Inl e
                | Inr html \<Rightarrow> Inr (scrapeDocument (load html))))"

section \<open>The schedule endpoint\<close>

text \<open>
  The route answers with \<open>c.json\<close>, which writes its argument with \<open>JSON.stringify\<close>.
  The body of a response is modelled as the JSON value that is written.
\<close>

datatype json = JNull | JNumber rat | JString string | JArray "json list"
  | JObject "(string \<times> json) list"

definition jsonNumber :: "jsnumber \<Rightarrow> json" where
  \<comment> \<open>\<open>JSON.stringify\<close> writes a Number that is not finite as \<open>null\<close>\<close>
  "jsonNumber n = (case n of Number r \<Rightarrow> JNumber r | _ \<Rightarrow> JNull)"

definition jsonNullable :: "('a \<Rightarrow> json) \<Rightarrow> 'a option \<Rightarrow> json" where
  "jsonNullable f v = (case v of None \<Rightarrow> JNull | Some x \<Rightarrow> f x)"

definition jsonAnime :: "anime_data \<Rightarrow> json" where
  "jsonAnime a =
     JObject
       [(''id'', jsonNullable JString (malId a)),
        (''title'', JString (title a)),
        (''score'', jsonNullable jsonNumber (score a)),
        (''members'', jsonNullable jsonNumber (members a)),
        (''imageUrl'', jsonNullable JString (imageUrl a)),
        (''day'', JString (day a)),
        (''aired'', jsonNullable JString (aired a)),
        (''episodes'', jsonNullable JString (episodes a)),
        (''duration'', jsonNullable JString (duration a))]"

definition jsonDay :: "day_schedule \<Rightarrow> json" where
  "jsonDay d = JObject [(''day'', JString (dayName d)), (''anime'', JArray (map jsonAnime (anime d)))]"

record schedule_response =
  lastUpdated :: nat
  total :: nat
  schedule :: "day_schedule list"

definition jsonResponse :: "schedule_response \<Rightarrow> json" where
  "jsonResponse r =
     JObject
       [(''lastUpdated'', JNumber (of_nat (lastUpdated r))),
        (''total'', JNumber (of_nat (total r))),
        (''schedule'', JArray (map jsonDay (schedule r)))]"

definition totalEntries :: "day_schedule list \<Rightarrow> nat" where
  \<comment> \<open>the \<open>reduce\<close> over the schedule\<close>
  "totalEntries sched = foldl (\<lambda>tot daySchedule. tot + length (anime daySchedule)) 0 sched"

definition scheduleResponse ::
  "(string \<Rightarrow> document) \<Rightarrow> fetch_outcome \<Rightarrow> nat \<Rightarrow> js_error + schedule_response" where
  \<comment> \<open>the \<open>try\<close> block of the route; \<open>now\<close> is \<open>Date.now()\<close>, in milliseconds\<close>
  "scheduleResponse load outcome now =
     (case scrapeAnimeSchedule load outcome of
        Inl e \<Rightarrow> Inl e
      | Inr sched \<Rightarrow>
          Inr \<lparr> lastUpdated = now div 1000, total = totalEntries sched, schedule = sched \<rparr>)"

record http_response =
  code :: nat
  headers :: "(string \<times> string) list"
  body :: json

definition corsHeaders :: "(string \<times> string) list" where
  "corsHeaders =
     [(''Access-Control-Allow-Origin'', ''*''),
      (''Access-Control-Allow-Methods'', ''GET, POST, OPTIONS''),
      (''Access-Control-Allow-Headers'', ''Content-Type'')]"

definition getAnimeSchedule ::
  "(string \<Rightarrow> document) \<Rightarrow> fetch_outcome \<Rightarrow> nat \<Rightarrow> http_response" where
  \<comment> \<open>\<open>app.get('/api/anime-schedule', ...)\<close>\<close>
  "getAnimeSchedule load outcome now =
     (case scheduleResponse load outcome now of
        Inr r \<Rightarrow> \<lparr> code = 200, headers = corsHeaders, body = jsonResponse r \<rparr>
      | Inl (Error msg) \<Rightarrow>
          \<lparr> code = 500, headers = corsHeaders,
            body = JObject [(''error'', JString ''Failed to fetch anime schedule''),
                            (''details'', JString msg)] \<rparr>)"

section \<open>Auxiliary definitions\<close>

text \<open>The two loops over the day keys, as a filter and a map over \<open>dayMappings\<close>.\<close>

definition dayPresent :: "document \<Rightarrow> string \<times> string \<Rightarrow> bool" where
  "dayPresent doc kv = (select doc (''js-seasonal-anime-list-key-'' @ fst kv) \<noteq> [])"

definition dayOf :: "document \<Rightarrow> string \<times> string \<Rightarrow> day_schedule" where
  "dayOf doc kv =
     \<lparr> dayName = snd kv,
       anime = animeListOf (snd kv)
                 (find_seasonal_anime (select doc (''js-seasonal-anime-list-key-'' @ fst kv))) \<rparr>"

text \<open>A field of a JSON object.\<close>

definition jsonField :: "json \<Rightarrow> string \<Rightarrow> json option" where
  "jsonField j k = (case j of JObject kvs \<Rightarrow> map_of kvs k | _ \<Rightarrow> None)"

text \<open>
  Sample inputs: an entry with nothing in it, entries that exercise single fields, and a
  document whose containers stand in the order Tuesday, Sunday, Monday, the Sunday one
  holding no entry with a title.
\<close>

definition noElement :: anime_element where
  "noElement =
     \<lparr> link_title_href = None, link_title_text = [], js_title_text = [],
       js_score_text = [], score_text = [], js_members_text = [],
       img_data_src = None, img_src = None, img_data_lazy_src = None, info_text = [] \<rparr>"

definition fooElement :: anime_element where
  "fooElement =
     noElement \<lparr> link_title_href := Some ''https://myanimelist.net/anime/12345/Foo'',
                 link_title_text := '' Foo '',
                 js_score_text := ''8.5'',
                 js_members_text := ''12,345'',
                 img_data_src := Some ''/images/anime/123.jpg'' \<rparr>"

definition barElement :: anime_element where
  "barElement =
     noElement \<lparr> js_title_text := ''Bar'', score_text := ''N/A'',
                 img_src := Some ''//cdn.example.com/x.png'' \<rparr>"

definition sampleDocument :: document where
  "sampleDocument =
     [\<lparr> class_names = [''seasonal-anime-list'', ''js-seasonal-anime-list-key-tuesday''],
        seasonal_anime = [noElement, fooElement] \<rparr>,
      \<lparr> class_names = [''seasonal-anime-list'', ''js-seasonal-anime-list-key-sunday''],
        seasonal_anime = [noElement] \<rparr>,
      \<lparr> class_names = [''seasonal-anime-list'', ''js-seasonal-anime-list-key-monday''],
        seasonal_anime = [barElement] \<rparr>]"

definition sampleResponse :: response where
  "sampleResponse = \<lparr> ok = True, status = 200, body_text = Inr ''<html></html>'' \<rparr>"

definition questionElement :: anime_element where
  "questionElement = noElement \<lparr> js_title_text := ''Qux'', js_score_text := '' ? '' \<rparr>"

definition abcElement :: anime_element where
  "abcElement = noElement \<lparr> js_title_text := ''Abc'', js_score_text := '' abc '' \<rparr>"

definition relativeElement :: anime_element where
  "relativeElement =
     noElement \<lparr> js_title_text := ''Baz'', img_src := Some ''images/anime/1.jpg'' \<rparr>"

definition relativeDocument :: document where
  "relativeDocument =
     [\<lparr> class_names = [''js-seasonal-anime-list-key-monday''],
        seasonal_anime = [relativeElement] \<rparr>]"

definition sevenElement :: anime_element where
  "sevenElement = noElement \<lparr> js_title_text := ''Seven'', js_score_text := '' 7.25 '' \<rparr>"

definition tenElement :: anime_element where
  "tenElement = noElement \<lparr> js_title_text := ''Ten'', score_text := ''10'' \<rparr>"







definition lastWinsElement :: anime_element where
  "lastWinsElement =
     noElement \<lparr> js_title_text := ''Quux'',
       info_text := ''  Oct 6, 2025'' @ [CHR 0x0A] @ ''   11 eps, 23 min'' @ [CHR 0x0A, CHR 0x0A]
                      @ ''Jan 5, 2026 '' @ [CHR 0x0A] @ '' ? eps  '' \<rparr>"

section \<open>Evaluation and the shape of the loops\<close>

lemmas string_defs =
  isWhiteSpace_def isLineTerminator_def isDigit_def isDigitOrQuestion_def isLetter_def
  trimStart_def trim_def startsWith_def orElse_def lit_def rep_def

lemmas sample_defs =
  noElement_def fooElement_def barElement_def sampleDocument_def sampleResponse_def
  questionElement_def abcElement_def relativeElement_def lastWinsElement_def
  sevenElement_def tenElement_def

lemmas number_defs =
  parseFloat_def parseInt_def signed_def digitsValue_def digitValue_def exponentPart_def
  pow10_def isHexDigit_def removeCommas_def

lemmas regex_defs = epAt_def durAt_def dateAt_def animeIdAt_def

lemmas url_defs =
  normalizeImageUrl_def extAt_def queryToEnd_def rasterExtensions_def imageUrlOf_def
  truthy_def orUndefined_def

lemma animeListOf_filter:
  "animeListOf dn els = filter hasTitle (map (animeDataOf dn) els)"
proof -
  have "foldl (\<lambda>animeList el.
              let animeData = animeDataOf dn el
              in if hasTitle animeData then animeList @ [animeData] else animeList) acc els
        = acc @ filter hasTitle (map (animeDataOf dn) els)" for acc
    by (induction els arbitrary: acc) (simp_all add: Let_def)
  from this [of "[]"] show ?thesis by (simp add: animeListOf_def)
qed

lemma foldl_pushDay:
  "foldl (pushDay doc) acc kvs = acc @ map (dayOf doc) (filter (dayPresent doc) kvs)"
  by (induction kvs arbitrary: acc)
     (auto simp: pushDay_def dayPresent_def dayOf_def Let_def split: prod.splits)

lemma scrapeDocument_eq:
  "scrapeDocument doc =
     filter (\<lambda>d. anime d \<noteq> []) (map (dayOf doc) (filter (dayPresent doc) dayMappings))"
  by (simp add: scrapeDocument_def foldl_pushDay)

lemma scrapeDocument_titled:
  assumes "d \<in> set (scrapeDocument doc)"
  shows "anime d \<noteq> []" and "a \<in> set (anime d) \<Longrightarrow> hasTitle a"
proof -
  from assms show "anime d \<noteq> []" by (simp add: scrapeDocument_eq)
  from assms obtain kv where "d = dayOf doc kv" by (auto simp: scrapeDocument_eq)
  then show "a \<in> set (anime d) \<Longrightarrow> hasTitle a"
    by (simp add: dayOf_def animeListOf_filter)
qed

lemma dayName_dayOf: "dayName (dayOf doc kv) = snd kv"
  by (simp add: dayOf_def)

lemma scrapeDocument_names:
  "map dayName (scrapeDocument doc) =
     map snd (filter (\<lambda>kv. dayPresent doc kv \<and> anime (dayOf doc kv) \<noteq> []) dayMappings)"
  by (simp add: scrapeDocument_eq filter_map o_def dayName_dayOf)

lemma dayPresent_set:
  "dayPresent doc kv \<longleftrightarrow>
     (\<exists>c \<in> set doc. (''js-seasonal-anime-list-key-'' @ fst kv) \<in> set (class_names c))"
  by (auto simp: dayPresent_def select_def filter_empty_conv)

lemma anime_dayOf_set:
  "anime (dayOf doc kv) \<noteq> [] \<longleftrightarrow>
     (\<exists>c \<in> set doc. (''js-seasonal-anime-list-key-'' @ fst kv) \<in> set (class_names c)
        \<and> (\<exists>el \<in> set (seasonal_anime c). hasTitle (animeDataOf (snd kv) el)))"
  by (auto simp: dayOf_def animeListOf_filter find_seasonal_anime_def select_def
        filter_empty_conv)

lemma scrapeDocument_names_set:
  assumes "set doc' = set doc"
  shows "map dayName (scrapeDocument doc') = map dayName (scrapeDocument doc)"
  unfolding scrapeDocument_names dayPresent_set anime_dayOf_set assms ..

lemma totalEntries_sum:
  "totalEntries sched = sum_list (map (\<lambda>d. length (anime d)) sched)"
proof -
  have "foldl (\<lambda>tot d. tot + length (anime d)) n sched
        = n + sum_list (map (\<lambda>d. length (anime d)) sched)" for n
    by (induction sched arbitrary: n) simp_all
  from this [of 0] show ?thesis by (simp add: totalEntries_def)
qed

lemma scrapeAnimeSchedule_Inr:
  "scrapeAnimeSchedule load outcome = Inr sched \<longleftrightarrow>
     (\<exists>r html. outcome = Resolved r \<and> ok r \<and> body_text r = Inr html
        \<and> sched = scrapeDocument (load html))"
  by (auto simp: scrapeAnimeSchedule_def split: fetch_outcome.splits sum.splits)

lemma roundNumber_small: "\<bar>r\<bar> < 2 ^ 64 \<Longrightarrow> roundNumber r = Number r"
proof -
  assume a: "\<bar>r\<bar> < 2 ^ 64"
  have "(2::rat) ^ 970 + 2 ^ 64 \<le> 2 ^ 970 + 2 ^ 970"
    by (intro add_left_mono power_increasing) simp_all
  also have "\<dots> \<le> 2 ^ 1024"
    using power_increasing [of 971 1024 "2::rat"] by simp
  finally have "(2::rat) ^ 64 \<le> 2 ^ 1024 - 2 ^ 970" by simp
  with a show ?thesis by (auto simp: roundNumber_def)
qed

subsection \<open>The fields of a record and the sample inputs\<close>

lemma title_animeDataOf: "title (animeDataOf dn el) = orElse (titleOf el) ''Unknown Title''"
  by (simp add: animeDataOf_def split: prod.splits)

lemma hasTitle_animeDataOf:
  "hasTitle (animeDataOf dn el) \<longleftrightarrow> titleOf el \<noteq> [] \<and> titleOf el \<noteq> ''Unknown Title''"
  by (simp add: hasTitle_def title_animeDataOf orElse_def)

lemma sample_titleOf:
  "titleOf noElement = []" "titleOf fooElement = ''Foo''" "titleOf barElement = ''Bar''"
  by (simp_all add: titleOf_def sample_defs string_defs)

lemma sample_present:
  "filter (dayPresent sampleDocument) dayMappings
     = [(''monday'', ''Monday''), (''tuesday'', ''Tuesday''), (''sunday'', ''Sunday'')]"
  by (simp add: dayPresent_def select_def dayMappings_def sampleDocument_def)

lemma sample_found:
  "find_seasonal_anime (select sampleDocument ''js-seasonal-anime-list-key-monday'')
     = [barElement]"
  "find_seasonal_anime (select sampleDocument ''js-seasonal-anime-list-key-tuesday'')
     = [noElement, fooElement]"
  "find_seasonal_anime (select sampleDocument ''js-seasonal-anime-list-key-sunday'')
     = [noElement]"
  by (simp_all add: find_seasonal_anime_def select_def sampleDocument_def)

lemma sample_titles:
  "map (\<lambda>d. (dayName d, map title (anime d))) (scrapeDocument sampleDocument)
     = [(''Monday'', [''Bar'']), (''Tuesday'', [''Foo''])]"
  by (simp add: scrapeDocument_eq sample_present dayOf_def sample_found animeListOf_filter
        hasTitle_animeDataOf title_animeDataOf sample_titleOf orElse_def)

lemma sample_run:
  "scrapeAnimeSchedule (\<lambda>_. sampleDocument) (Resolved sampleResponse)
     = Inr (scrapeDocument sampleDocument)"
  by (simp add: scrapeAnimeSchedule_def sampleResponse_def)

lemma decimal_404: "decimal 404 = ''404''"
  by (simp add: decimal.simps)

lemma score_animeDataOf: "score (animeDataOf dn el) = scoreOf (scoreText el)"
  by (simp add: animeDataOf_def split: prod.splits)

lemma imageUrl_animeDataOf: "imageUrl (animeDataOf dn el) = imageUrlOf el"
  by (simp add: animeDataOf_def split: prod.splits)

lemma parseFloat_8_5: "parseFloat ''8.5'' = Number (17 / 2)"
  by (simp add: number_defs string_defs roundNumber_small)

lemma parseFloat_abc: "parseFloat ''abc'' = NaN"
  by (simp add: number_defs string_defs)

lemma sample_scoreText:
  "scoreText noElement = []" "scoreText fooElement = ''8.5''" "scoreText barElement = ''N/A''"
  "scoreText questionElement = ''?''" "scoreText abcElement = ''abc''"
  by (simp_all add: scoreText_def sample_defs string_defs)

lemma normalize_relative: "normalizeImageUrl ''images/anime/1.jpg'' = ''images/anime/1.webp''"
  by (simp add: url_defs string_defs)

lemma relative_imageUrlOf: "imageUrlOf relativeElement = Some ''images/anime/1.webp''"
  by (simp add: imageUrlOf_def truthy_def orUndefined_def relativeElement_def noElement_def
        normalize_relative)

lemma relative_titleOf: "titleOf relativeElement = ''Baz''"
  by (simp add: titleOf_def relativeElement_def noElement_def string_defs)

text \<open>One entry through all the field rules.\<close>

lemma foo_malId: "malIdOf fooElement = Some ''12345''"
  by (simp add: malIdOf_def fooElement_def noElement_def regex_defs string_defs)

lemma foo_members: "membersOf (membersText fooElement) = Some (Number 12345)"
  by (simp add: membersOf_def membersText_def fooElement_def noElement_def number_defs
        string_defs roundNumber_small)

lemma foo_imageUrl: "imageUrlOf fooElement = Some ''https://myanimelist.net/images/anime/123.webp''"
  by (simp add: fooElement_def noElement_def url_defs string_defs)

lemma foo_info: "infoOf fooElement = (None, None, None)"
  by (simp add: infoOf_def fooElement_def noElement_def string_defs)

lemma foo_record:
  "animeDataOf ''Tuesday'' fooElement =
     \<lparr> malId = Some ''12345'', title = ''Foo'', score = Some (Number (17 / 2)),
       members = Some (Number 12345),
       imageUrl = Some ''https://myanimelist.net/images/anime/123.webp'',
       day = ''Tuesday'', aired = None, episodes = None, duration = None \<rparr>"
  by (simp add: animeDataOf_def foo_info foo_malId foo_members foo_imageUrl sample_titleOf
        sample_scoreText scoreOf_def parseFloat_8_5 orElse_def)

subsection \<open>The scan of the info lines and its patterns\<close>



























subsection \<open>The replacement of the extension\<close>

lemma extAt_ext: "ext \<in> set rasterExtensions \<Longrightarrow> extAt (CHR ''.'' # ext)"
  by (auto simp: extAt_def lit_def queryToEnd_def rasterExtensions_def)

lemma extAt_no_query:
  assumes "extAt s" and "CHR ''?'' \<notin> set s"
  shows "\<exists>ext \<in> set rasterExtensions. s = CHR ''.'' # ext"
proof -
  from assms(1) obtain r ext t where s: "s = CHR ''.'' # r"
    and ext: "ext \<in> set rasterExtensions" and r: "r = ext @ t" and t: "queryToEnd t"
    by (auto simp: extAt_def lit_def list_ex_iff prefix_def split: if_splits list.splits)
  from t assms(2) s r have "t = []"
    by (cases t) (auto simp: queryToEnd_def)
  with s r ext show ?thesis by auto
qed

lemma raster_no_dot: "ext \<in> set rasterExtensions \<Longrightarrow> CHR ''.'' \<notin> set ext"
  by (auto simp: rasterExtensions_def)

lemma raster_no_query: "ext \<in> set rasterExtensions \<Longrightarrow> CHR ''?'' \<notin> set ext"
  by (auto simp: rasterExtensions_def)

lemma replaceExt_stem:
  assumes "ext \<in> set rasterExtensions" and "CHR ''?'' \<notin> set stem"
  shows "replaceExt (stem @ CHR ''.'' # ext) = stem @ ''.webp''"
  using assms(2)
proof (induction stem)
  case Nil
  with assms(1) show ?case by (simp add: extAt_ext)
next
  case (Cons c cs)
  have "\<not> extAt (c # cs @ CHR ''.'' # ext)"
  proof
    assume "extAt (c # cs @ CHR ''.'' # ext)"
    moreover from Cons.prems assms(1) have "CHR ''?'' \<notin> set (c # cs @ CHR ''.'' # ext)"
      by (auto dest: raster_no_query)
    ultimately obtain ext' where ext': "ext' \<in> set rasterExtensions"
      and eq: "c # cs @ CHR ''.'' # ext = CHR ''.'' # ext'"
      using extAt_no_query by blast
    from eq have "ext' = cs @ CHR ''.'' # ext" by simp
    then have "CHR ''.'' \<in> set ext'" by simp
    with ext' show False by (auto dest: raster_no_dot)
  qed
  with Cons show ?case by simp
qed

subsection \<open>Decimal texts\<close>

lemma foldl_digits:
  "foldl (\<lambda>a c. r * a + digitValue c) a ds
     = a * r ^ length ds + foldl (\<lambda>a c. r * a + digitValue c) 0 ds"
proof (induction ds arbitrary: a)
  case Nil
  show ?case by simp
next
  case (Cons d ds)
  let ?f = "\<lambda>a c. r * a + digitValue c"
  have "foldl ?f a (d # ds) = foldl ?f (r * a + digitValue d) ds" by simp
  also have "\<dots> = (r * a + digitValue d) * r ^ length ds + foldl ?f 0 ds"
    by (rule Cons.IH)
  also have "\<dots> = a * r ^ length (d # ds) + (digitValue d * r ^ length ds + foldl ?f 0 ds)"
    by (simp add: algebra_simps)
  also have "digitValue d * r ^ length ds + foldl ?f 0 ds = foldl ?f (digitValue d) ds"
    by (rule Cons.IH [symmetric])
  also have "\<dots> = foldl ?f 0 (d # ds)" by simp
  finally show ?case .
qed

lemma digitsValue_append:
  "digitsValue r (xs @ ys) = digitsValue r xs * r ^ length ys + digitsValue r ys"
  unfolding digitsValue_def foldl_append by (rule foldl_digits)

lemma below_ten: "k < 10 \<Longrightarrow> k \<in> {0, 1, 2, 3, 4, 5, 6, 7, 8, 9::nat}"
  by auto

lemma isDigit_digit: "k < 10 \<Longrightarrow> isDigit (''0123456789'' ! k)"
  by (drule below_ten) (auto simp: isDigit_def)

lemma digitValue_digit: "k < 10 \<Longrightarrow> digitValue (''0123456789'' ! k) = k"
  by (drule below_ten) (auto simp: digitValue_def isDigit_def)

lemma decimal_digits: "list_all isDigit (decimal n) \<and> decimal n \<noteq> []"
proof (induction n rule: decimal.induct)
  case (1 n)
  show ?case
  proof (cases "n < 10")
    case True
    then show ?thesis by (subst (1 2) decimal.simps) (simp add: isDigit_digit)
  next
    case False
    with 1 show ?thesis by (subst (1 2) decimal.simps) (simp add: isDigit_digit)
  qed
qed

lemma digitsValue_decimal: "digitsValue 10 (decimal n) = n"
proof (induction n rule: decimal.induct)
  case (1 n)
  show ?case
  proof (cases "n < 10")
    case True
    then show ?thesis
      by (subst decimal.simps) (simp add: digitsValue_def digitValue_digit)
  next
    case False
    with 1 have "digitsValue 10 (decimal (n div 10)) = n div 10" by simp
    with False show ?thesis
      by (subst decimal.simps)
         (simp add: digitsValue_append, simp add: digitsValue_def digitValue_digit)
  qed
qed

lemma digitsValue_bound: "list_all isDigit ds \<Longrightarrow> digitsValue 10 ds < 10 ^ length ds"
proof (induction ds rule: rev_induct)
  case Nil
  show ?case by (simp add: digitsValue_def)
next
  case (snoc d ds)
  then have "isDigit d" by simp
  then have "digitValue d < 10" by (auto simp: digitValue_def isDigit_def)
  moreover from snoc have "digitsValue 10 ds < 10 ^ length ds" by simp
  then have "digitsValue 10 ds * 10 + 10 \<le> 10 ^ length ds * 10" by simp
  moreover have "digitsValue 10 [d] = digitValue d" by (simp add: digitsValue_def)
  ultimately show ?case by (simp add: digitsValue_append)
qed


lemma digit_first:
  assumes "isDigit c"
  shows "\<not> isWhiteSpace c" and "c \<noteq> CHR ''-''" and "c \<noteq> CHR ''+''" and "c \<noteq> CHR ''I''"
    and "c \<noteq> CHR ''.''" and "c \<noteq> CHR ''N''" and "c \<noteq> CHR ''?''"
  using assms by (auto simp: isDigit_def isWhiteSpace_def)

lemma digits_then_point:
  assumes "list_all isDigit ds"
  shows "takeWhile isDigit (ds @ CHR ''.'' # r) = ds"
    and "dropWhile isDigit (ds @ CHR ''.'' # r) = CHR ''.'' # r"
    and "takeWhile isDigit ds = ds" and "dropWhile isDigit ds = []"
  using assms by (simp_all add: list_all_iff takeWhile_append2 dropWhile_append2 isDigit_def)

lemma parseFloat_start:
  assumes "isDigit c"
  shows "parseFloat (c # s) =
     (let ip = takeWhile isDigit (c # s);
          r1 = dropWhile isDigit (c # s);
          (fp, r2) = (case lit ''.'' r1 of
                        None \<Rightarrow> ([], r1)
                      | Some r \<Rightarrow> (takeWhile isDigit r, dropWhile isDigit r))
      in roundNumber (of_nat (digitsValue 10 (ip @ fp))
                        * pow10 (exponentPart r2 - int (length fp))))"
  using assms digit_first [OF assms]
  by (simp add: parseFloat_def trimStart_def signed_def startsWith_def Let_def
        split: prod.splits)

lemma parseFloat_point:
  assumes "ip \<noteq> []" and "list_all isDigit ip" and "list_all isDigit fp"
  shows "parseFloat (ip @ ''.'' @ fp)
     = roundNumber (of_nat (digitsValue 10 ip) + of_nat (digitsValue 10 fp) / 10 ^ length fp)"
proof -
  from assms(1,2) obtain c cs where ip: "ip = c # cs" and c: "isDigit c"
    by (cases ip) auto
  note tw = digits_then_point(1,2) [OF assms(2), of fp] digits_then_point(3,4) [OF assms(3)]
  have "parseFloat (ip @ CHR ''.'' # fp) =
     (let ip' = takeWhile isDigit (ip @ CHR ''.'' # fp);
          r1 = dropWhile isDigit (ip @ CHR ''.'' # fp);
          (fp', r2) = (case lit ''.'' r1 of
                        None \<Rightarrow> ([], r1)
                      | Some r \<Rightarrow> (takeWhile isDigit r, dropWhile isDigit r))
      in roundNumber (of_nat (digitsValue 10 (ip' @ fp'))
                        * pow10 (exponentPart r2 - int (length fp'))))"
    using parseFloat_start [OF c, of "cs @ CHR ''.'' # fp"] unfolding ip
    by (simp only: append_Cons)
  then have "parseFloat (ip @ CHR ''.'' # fp)
      = roundNumber (of_nat (digitsValue 10 (ip @ fp)) * pow10 (- int (length fp)))"
    by (simp add: tw lit_def exponentPart_def)
  also have "of_nat (digitsValue 10 (ip @ fp)) * pow10 (- int (length fp))
      = of_nat (digitsValue 10 ip) + of_nat (digitsValue 10 fp) / 10 ^ length fp"
    by (simp add: digitsValue_append pow10_def field_simps)
  finally show ?thesis by simp
qed

lemma parseFloat_digits:
  assumes "ip \<noteq> []" and "list_all isDigit ip"
  shows "parseFloat ip = roundNumber (of_nat (digitsValue 10 ip))"
proof -
  from assms obtain c cs where ip: "ip = c # cs" and c: "isDigit c"
    by (cases ip) auto
  note tw = digits_then_point(3,4) [OF assms(2)]
  have "parseFloat ip =
     (let ip' = takeWhile isDigit ip;
          r1 = dropWhile isDigit ip;
          (fp', r2) = (case lit ''.'' r1 of
                        None \<Rightarrow> ([], r1)
                      | Some r \<Rightarrow> (takeWhile isDigit r, dropWhile isDigit r))
      in roundNumber (of_nat (digitsValue 10 (ip' @ fp'))
                        * pow10 (exponentPart r2 - int (length fp'))))"
    using parseFloat_start [OF c, of cs] unfolding ip .
  then show ?thesis
    by (simp add: tw lit_def exponentPart_def pow10_def)
qed


lemma more_scoreText:
  "scoreText sevenElement = ''7.25''" "scoreText tenElement = ''10''"
  by (simp_all add: scoreText_def sevenElement_def tenElement_def noElement_def string_defs)

lemma sample_decimal: "decimal 7 = ''7''" "decimal 10 = ''10''"
  by (simp_all add: decimal.simps)

lemma digits_not_sentinel:
  assumes "ip \<noteq> []" and "list_all isDigit ip"
  shows "ip @ r \<noteq> []" and "ip @ r \<noteq> ''N/A''" and "ip @ r \<noteq> ''?''"
proof -
  from assms obtain c cs where ip: "ip = c # cs" and c: "isDigit c"
    by (cases ip) auto
  from digit_first [OF c] show "ip @ r \<noteq> []" "ip @ r \<noteq> ''N/A''" "ip @ r \<noteq> ''?''"
    by (simp_all add: ip)
qed

lemma score_parsed:
  "st \<noteq> [] \<Longrightarrow> st \<noteq> ''N/A'' \<Longrightarrow> st \<noteq> ''?'' \<Longrightarrow> scoreOf st = Some (parseFloat st)"
  by (simp add: scoreOf_def)

lemma fraction_small:
  assumes "n < 2 ^ 63" and "list_all isDigit fp"
  shows "roundNumber (of_nat n + of_nat (digitsValue 10 fp) / 10 ^ length fp)
     = Number (of_nat n + of_nat (digitsValue 10 fp) / 10 ^ length fp)"
proof -
  define f :: rat where "f = of_nat (digitsValue 10 fp) / 10 ^ length fp"
  from digitsValue_bound [OF assms(2)]
  have "(of_nat (digitsValue 10 fp) :: rat) < of_nat (10 ^ length fp)"
    by (simp only: of_nat_less_iff)
  then have f1: "f < 1" by (simp add: f_def divide_less_eq)
  have f0: "0 \<le> f" by (simp add: f_def)
  from assms(1) have "Suc n \<le> 2 ^ 63" by simp
  then have "(of_nat (Suc n) :: rat) \<le> of_nat (2 ^ 63)" by (simp only: of_nat_le_iff)
  then have n1: "(of_nat n :: rat) + 1 \<le> 2 ^ 63" by simp
  have n0: "(0::rat) \<le> of_nat n" by simp
  have "(2::rat) ^ 63 \<le> 2 ^ 64" by simp
  with f1 f0 n1 n0 have "\<bar>of_nat n + f\<bar> < 2 ^ 64" by linarith
  then have "roundNumber (of_nat n + f) = Number (of_nat n + f)"
    by (rule roundNumber_small)
  then show ?thesis by (simp only: f_def)
qed

lemma sample_digits: "list_all isDigit ''25''" "digitsValue 10 ''25'' = 25"
  by (simp_all add: isDigit_def digitsValue_def digitValue_def)

section \<open>Invariants of the emitted schedule\<close>

text \<open>
  C1. Whatever the parser makes of the fetched markup, every record of the schedule that
  \<open>scrapeAnimeSchedule\<close> returns has a title that is neither empty nor
  \<open>Unknown Title\<close>, and every group of it has at least one record.
\<close>

theorem emitted_records_have_titles:
  assumes "scrapeAnimeSchedule load outcome = Inr sched"
  shows "\<forall>d \<in> set sched. anime d \<noteq> [] \<and>
           (\<forall>a \<in> set (anime d). title a \<noteq> [] \<and> title a \<noteq> ''Unknown Title'')"
proof -
  from assms obtain html where "sched = scrapeDocument (load html)"
    by (auto simp: scrapeAnimeSchedule_Inr)
  then show ?thesis
    using scrapeDocument_titled by (auto simp: hasTitle_def)
qed

theorem emitted_records_have_titles_witness:
  "scrapeAnimeSchedule (\<lambda>_. sampleDocument) (Resolved sampleResponse)
     = Inr (scrapeDocument sampleDocument)
   \<and> map (\<lambda>d. (dayName d, map title (anime d))) (scrapeDocument sampleDocument)
       = [(''Monday'', [''Bar'']), (''Tuesday'', [''Foo''])]
   \<and> list_all (\<lambda>d. anime d \<noteq> [] \<and>
         list_all (\<lambda>a. title a \<noteq> [] \<and> title a \<noteq> ''Unknown Title'') (anime d))
       (scrapeDocument sampleDocument)"
  using emitted_records_have_titles [OF sample_run] sample_run sample_titles
  by (simp add: list_all_iff)

section \<open>The total of the response\<close>

text \<open>
  C2. When the schedule endpoint answers with status 200, its body is the serialisation
  of a response object whose \<open>total\<close> is the sum of the lengths of the \<open>anime\<close> lists
  of the groups in its \<open>schedule\<close>.
\<close>

theorem total_is_sum_of_lengths:
  "code (getAnimeSchedule load outcome now) = 200 \<longrightarrow>
     (\<exists>r. scheduleResponse load outcome now = Inr r
        \<and> body (getAnimeSchedule load outcome now) = jsonResponse r
        \<and> total r = sum_list (map (\<lambda>d. length (anime d)) (schedule r)))"
  by (auto simp: getAnimeSchedule_def scheduleResponse_def totalEntries_sum
        split: sum.splits js_error.splits)

theorem total_is_sum_of_lengths_witness:
  "code (getAnimeSchedule (\<lambda>_. sampleDocument) (Resolved sampleResponse) 1700000000123) = 200
   \<and> (\<exists>r. scheduleResponse (\<lambda>_. sampleDocument) (Resolved sampleResponse) 1700000000123
            = Inr r
        \<and> body (getAnimeSchedule (\<lambda>_. sampleDocument) (Resolved sampleResponse) 1700000000123)
            = jsonResponse r
        \<and> total r = sum_list (map (\<lambda>d. length (anime d)) (schedule r))
        \<and> map (\<lambda>d. length (anime d)) (schedule r) = [1, 1]
        \<and> total r = 2)"
proof -
  let ?G = "getAnimeSchedule (\<lambda>_. sampleDocument) (Resolved sampleResponse) 1700000000123"
  have c: "code ?G = 200"
    by (simp add: getAnimeSchedule_def scheduleResponse_def sample_run)
  from total_is_sum_of_lengths [rule_format, OF c] obtain r where
    r: "scheduleResponse (\<lambda>_. sampleDocument) (Resolved sampleResponse) 1700000000123 = Inr r"
       "body ?G = jsonResponse r"
       "total r = sum_list (map (\<lambda>d. length (anime d)) (schedule r))"
    by blast
  from r(1) have "schedule r = scrapeDocument sampleDocument"
    by (auto simp: scheduleResponse_def sample_run)
  moreover have "map (\<lambda>d. length (anime d)) (scrapeDocument sampleDocument) = [1, 1]"
    using arg_cong [OF sample_titles, of "map (\<lambda>p. length (snd p))"] by (simp add: o_def)
  ultimately have "map (\<lambda>d. length (anime d)) (schedule r) = [1, 1]" by simp
  with r c show ?thesis by auto
qed

section \<open>The order of the groups\<close>

text \<open>
  C3. The day names of the emitted groups, in order, are what is left of Monday, Tuesday,
  Wednesday, Thursday, Friday, Saturday, Sunday, Other, Unknown after dropping the absent
  days; and a document with the same containers in another order has the same sequence
  of day names.
\<close>

theorem groups_follow_bucket_order:
  "subseq (map dayName (scrapeDocument doc))
     [''Monday'', ''Tuesday'', ''Wednesday'', ''Thursday'', ''Friday'', ''Saturday'',
      ''Sunday'', ''Other'', ''Unknown'']
   \<and> (mset doc' = mset doc \<longrightarrow>
         map dayName (scrapeDocument doc') = map dayName (scrapeDocument doc))"
proof
  have "subseq (map dayName (scrapeDocument doc)) (map snd dayMappings)"
    unfolding scrapeDocument_names by (intro subseq_map subseq_filter_left)
  then show "subseq (map dayName (scrapeDocument doc))
     [''Monday'', ''Tuesday'', ''Wednesday'', ''Thursday'', ''Friday'', ''Saturday'',
      ''Sunday'', ''Other'', ''Unknown'']"
    by (simp add: dayMappings_def)
  show "mset doc' = mset doc \<longrightarrow>
          map dayName (scrapeDocument doc') = map dayName (scrapeDocument doc)"
    using scrapeDocument_names_set mset_eq_setD by blast
qed

theorem groups_follow_bucket_order_witness:
  "mset (rev sampleDocument) = mset sampleDocument
   \<and> map class_names sampleDocument
       = [[''seasonal-anime-list'', ''js-seasonal-anime-list-key-tuesday''],
          [''seasonal-anime-list'', ''js-seasonal-anime-list-key-sunday''],
          [''seasonal-anime-list'', ''js-seasonal-anime-list-key-monday'']]
   \<and> map dayName (scrapeDocument sampleDocument) = [''Monday'', ''Tuesday'']
   \<and> map dayName (scrapeDocument (rev sampleDocument)) = [''Monday'', ''Tuesday'']"
proof -
  have n: "map dayName (scrapeDocument sampleDocument) = [''Monday'', ''Tuesday'']"
    using arg_cong [OF sample_titles, of "map fst"] by (simp add: o_def)
  have m: "mset (rev sampleDocument) = mset sampleDocument" by simp
  from groups_follow_bucket_order [of sampleDocument "rev sampleDocument"] m n
  have "map dayName (scrapeDocument (rev sampleDocument)) = [''Monday'', ''Tuesday'']"
    by simp
  with m n show ?thesis by (simp add: sampleDocument_def)
qed

section \<open>A failed fetch\<close>

text \<open>
  C4. When the fetch resolves with a response that is not \<open>ok\<close>, \<open>scrapeAnimeSchedule\<close>
  throws and returns no group, and the endpoint answers with status 500 and the envelope
  of \<open>error\<close> and \<open>details\<close>, the latter being the message of the exception.
\<close>

theorem failed_fetch_fails_whole:
  assumes "\<not> ok r"
  shows "scrapeAnimeSchedule load (Resolved r)
           = Inl (Error (''Failed to fetch schedule: '' @ decimal (status r)))
         \<and> getAnimeSchedule load (Resolved r) now
           = \<lparr> code = 500, headers = corsHeaders,
               body = JObject
                 [(''error'', JString ''Failed to fetch anime schedule''),
                  (''details'',
                   JString (''Failed to fetch schedule: '' @ decimal (status r)))] \<rparr>"
  using assms by (simp add: scrapeAnimeSchedule_def scheduleResponse_def getAnimeSchedule_def)

theorem failed_fetch_fails_whole_witness:
  "scrapeAnimeSchedule (\<lambda>_. sampleDocument)
       (Resolved (sampleResponse \<lparr> ok := False, status := 404 \<rparr>))
     = Inl (Error ''Failed to fetch schedule: 404'')
   \<and> getAnimeSchedule (\<lambda>_. sampleDocument)
       (Resolved (sampleResponse \<lparr> ok := False, status := 404 \<rparr>)) 1700000000123
     = \<lparr> code = 500, headers = corsHeaders,
         body = JObject
           [(''error'', JString ''Failed to fetch anime schedule''),
            (''details'', JString ''Failed to fetch schedule: 404'')] \<rparr>"
  using failed_fetch_fails_whole
    [of "sampleResponse \<lparr> ok := False, status := 404 \<rparr>" "\<lambda>_. sampleDocument" 1700000000123]
  by (simp add: decimal_404)

section \<open>The score\<close>

text \<open>
  C5. For every entry, when the score text is \<open>N/A\<close>, \<open>?\<close> or empty the score of the
  record is null; for every other score text the score is what \<open>parseFloat\<close> makes of
  it. A text of digits, a point and digits gives the decimal value it writes, the value of
  the digits before the point plus that of the digits after it over the matching power
  of ten, and a text of digits alone gives their value; written from a number \<open>n\<close> below
  \<open>2^63\<close>, the integer part is \<open>n\<close> itself and the value is a finite number. In
  particular the text \<open>8.5\<close> gives the number 8.5.
\<close>

theorem score_sentinels_and_numbers:
  "(scoreText el = ''N/A'' \<or> scoreText el = ''?'' \<or> scoreText el = []
      \<longrightarrow> score (animeDataOf dn el) = None)
   \<and> (scoreText el = ''8.5'' \<longrightarrow> score (animeDataOf dn el) = Some (Number (17 / 2)))
   \<and> (scoreText el \<noteq> [] \<and> scoreText el \<noteq> ''N/A'' \<and> scoreText el \<noteq> ''?''
      \<longrightarrow> score (animeDataOf dn el) = Some (parseFloat (scoreText el)))
   \<and> (ip \<noteq> [] \<and> list_all isDigit ip \<and> list_all isDigit fp
        \<and> scoreText el = ip @ ''.'' @ fp
      \<longrightarrow> score (animeDataOf dn el)
            = Some (roundNumber (of_nat (digitsValue 10 ip)
                                   + of_nat (digitsValue 10 fp) / 10 ^ length fp)))
   \<and> (ip \<noteq> [] \<and> list_all isDigit ip \<and> scoreText el = ip
      \<longrightarrow> score (animeDataOf dn el) = Some (roundNumber (of_nat (digitsValue 10 ip))))
   \<and> (n < 2 ^ 63 \<and> list_all isDigit fp \<and> scoreText el = decimal n @ ''.'' @ fp
      \<longrightarrow> score (animeDataOf dn el)
            = Some (Number (of_nat n + of_nat (digitsValue 10 fp) / 10 ^ length fp)))
   \<and> (n < 2 ^ 63 \<and> scoreText el = decimal n
      \<longrightarrow> score (animeDataOf dn el) = Some (Number (of_nat n)))
   \<and> digitsValue 10 (decimal n) = n"
proof (intro conjI impI)
  show "score (animeDataOf dn el) = None"
    if "scoreText el = ''N/A'' \<or> scoreText el = ''?'' \<or> scoreText el = []"
    using that by (auto simp: score_animeDataOf scoreOf_def)
  show "score (animeDataOf dn el) = Some (Number (17 / 2))" if "scoreText el = ''8.5''"
    using that by (simp add: score_animeDataOf scoreOf_def parseFloat_8_5)
  show "score (animeDataOf dn el) = Some (parseFloat (scoreText el))"
    if "scoreText el \<noteq> [] \<and> scoreText el \<noteq> ''N/A'' \<and> scoreText el \<noteq> ''?''"
    using that by (simp add: score_animeDataOf score_parsed)
  show "score (animeDataOf dn el)
      = Some (roundNumber (of_nat (digitsValue 10 ip)
                             + of_nat (digitsValue 10 fp) / 10 ^ length fp))"
    if h: "ip \<noteq> [] \<and> list_all isDigit ip \<and> list_all isDigit fp
        \<and> scoreText el = ip @ ''.'' @ fp"
  proof -
    from h have ip: "ip \<noteq> []" "list_all isDigit ip" and fp: "list_all isDigit fp"
      and t: "scoreText el = ip @ ''.'' @ fp" by simp_all
    have "scoreOf (ip @ ''.'' @ fp) = Some (parseFloat (ip @ ''.'' @ fp))"
      by (rule score_parsed) (rule digits_not_sentinel [OF ip])+
    then show ?thesis
      unfolding score_animeDataOf t parseFloat_point [OF ip fp] .
  qed
  show "score (animeDataOf dn el) = Some (roundNumber (of_nat (digitsValue 10 ip)))"
    if h: "ip \<noteq> [] \<and> list_all isDigit ip \<and> scoreText el = ip"
  proof -
    from h have ip: "ip \<noteq> []" "list_all isDigit ip" and t: "scoreText el = ip"
      by simp_all
    from digits_not_sentinel [OF ip, of "[]"]
    have "scoreOf ip = Some (parseFloat ip)"
      by (intro score_parsed) simp_all
    then show ?thesis
      unfolding score_animeDataOf t parseFloat_digits [OF ip] .
  qed
  show "score (animeDataOf dn el)
      = Some (Number (of_nat n + of_nat (digitsValue 10 fp) / 10 ^ length fp))"
    if h: "n < 2 ^ 63 \<and> list_all isDigit fp \<and> scoreText el = decimal n @ ''.'' @ fp"
  proof -
    from h have n: "n < 2 ^ 63" and fp: "list_all isDigit fp"
      and t: "scoreText el = decimal n @ ''.'' @ fp" by simp_all
    from decimal_digits [of n] have ip: "decimal n \<noteq> []" "list_all isDigit (decimal n)"
      by simp_all
    have "scoreOf (decimal n @ ''.'' @ fp) = Some (parseFloat (decimal n @ ''.'' @ fp))"
      by (rule score_parsed) (rule digits_not_sentinel [OF ip])+
    then show ?thesis
      unfolding score_animeDataOf t parseFloat_point [OF ip fp] digitsValue_decimal
        fraction_small [OF n fp] .
  qed
  show "score (animeDataOf dn el) = Some (Number (of_nat n))"
    if h: "n < 2 ^ 63 \<and> scoreText el = decimal n"
  proof -
    from h have n: "n < 2 ^ 63" and t: "scoreText el = decimal n" by simp_all
    from decimal_digits [of n] have ip: "decimal n \<noteq> []" "list_all isDigit (decimal n)"
      by simp_all
    from n have r: "roundNumber (of_nat n) = Number (of_nat n)"
      using fraction_small [of n "[]"] by (simp add: digitsValue_def)
    from digits_not_sentinel [OF ip, of "[]"]
    have "scoreOf (decimal n) = Some (parseFloat (decimal n))"
      by (intro score_parsed) simp_all
    then show ?thesis
      unfolding score_animeDataOf t parseFloat_digits [OF ip] digitsValue_decimal r .
  qed
  show "digitsValue 10 (decimal n) = n" by (rule digitsValue_decimal)
qed


theorem score_sentinels_and_numbers_witness:
  "scoreText barElement = ''N/A'' \<and> score (animeDataOf ''Monday'' barElement) = None
   \<and> scoreText questionElement = ''?'' \<and> score (animeDataOf ''Monday'' questionElement) = None
   \<and> scoreText noElement = [] \<and> score (animeDataOf ''Monday'' noElement) = None
   \<and> scoreText fooElement = ''8.5''
   \<and> score (animeDataOf ''Tuesday'' fooElement) = Some (Number (17 / 2))
   \<and> scoreText sevenElement = ''7.25'' \<and> decimal 7 = ''7'' \<and> list_all isDigit ''25''
   \<and> score (animeDataOf ''Monday'' sevenElement) = Some (Number (29 / 4))
   \<and> parseFloat ''7.25'' = Number (29 / 4)
   \<and> scoreText tenElement = ''10'' \<and> decimal 10 = ''10''
   \<and> score (animeDataOf ''Monday'' tenElement) = Some (Number 10)
   \<and> parseFloat ''10'' = Number 10"
proof -
  note bar = score_sentinels_and_numbers
    [where el = barElement and dn = "''Monday''" and ip = "''7''" and fp = "''25''" and n = 7,
      THEN conjunct1]
  note question = score_sentinels_and_numbers
    [where el = questionElement and dn = "''Monday''" and ip = "''7''" and fp = "''25''"
      and n = 7, THEN conjunct1]
  note no = score_sentinels_and_numbers
    [where el = noElement and dn = "''Monday''" and ip = "''7''" and fp = "''25''" and n = 7,
      THEN conjunct1]
  note foo = score_sentinels_and_numbers
    [where el = fooElement and dn = "''Tuesday''" and ip = "''7''" and fp = "''25''" and n = 7,
      THEN conjunct2, THEN conjunct1]
  note seven = score_sentinels_and_numbers
    [where el = sevenElement and dn = "''Monday''" and ip = "''7''" and fp = "''25''" and n = 7]
  note ten = score_sentinels_and_numbers
    [where el = tenElement and dn = "''Monday''" and ip = "''10''" and fp = "[]" and n = 10]
  from bar question no foo have sentinels:
    "score (animeDataOf ''Monday'' barElement) = None"
    "score (animeDataOf ''Monday'' questionElement) = None"
    "score (animeDataOf ''Monday'' noElement) = None"
    "score (animeDataOf ''Tuesday'' fooElement) = Some (Number (17 / 2))"
    by (simp_all add: sample_scoreText)
  from seven [THEN conjunct2, THEN conjunct2, THEN conjunct2, THEN conjunct2, THEN conjunct2,
      THEN conjunct1]
  have s1: "score (animeDataOf ''Monday'' sevenElement) = Some (Number (29 / 4))"
    by (simp add: more_scoreText sample_decimal sample_digits isDigit_def)
  from seven [THEN conjunct2, THEN conjunct2, THEN conjunct1]
  have "score (animeDataOf ''Monday'' sevenElement) = Some (parseFloat ''7.25'')"
    by (simp add: more_scoreText)
  with s1 have s2: "parseFloat ''7.25'' = Number (29 / 4)" by simp
  from ten [THEN conjunct2, THEN conjunct2, THEN conjunct2, THEN conjunct2, THEN conjunct2,
      THEN conjunct2, THEN conjunct1]
  have t1: "score (animeDataOf ''Monday'' tenElement) = Some (Number 10)"
    by (simp add: more_scoreText sample_decimal)
  from ten [THEN conjunct2, THEN conjunct2, THEN conjunct1]
  have "score (animeDataOf ''Monday'' tenElement) = Some (parseFloat ''10'')"
    by (simp add: more_scoreText)
  with t1 have t2: "parseFloat ''10'' = Number 10" by simp
  from sentinels s1 s2 t1 t2 show ?thesis
    by (simp add: sample_scoreText more_scoreText sample_decimal isDigit_def)
qed

text \<open>
  C6. For every entry whose score text is not empty, is neither \<open>N/A\<close> nor \<open>?\<close>, and
  parses to not-a-number, the score of the record is NaN and the serialised record
  carries \<open>null\<close> in its \<open>score\<close> field.
\<close>

theorem nan_score_is_delivered_as_null:
  assumes "scoreText el \<noteq> []" and "scoreText el \<noteq> ''N/A''" and "scoreText el \<noteq> ''?''"
    and "parseFloat (scoreText el) = NaN"
  shows "score (animeDataOf dn el) = Some NaN
         \<and> jsonField (jsonAnime (animeDataOf dn el)) ''score'' = Some JNull"
  using assms
  by (simp add: score_animeDataOf scoreOf_def jsonField_def jsonAnime_def jsonNullable_def
        jsonNumber_def)

theorem nan_score_is_delivered_as_null_witness:
  "scoreText abcElement = ''abc'' \<and> parseFloat ''abc'' = NaN
   \<and> score (animeDataOf ''Monday'' abcElement) = Some NaN
   \<and> jsonField (jsonAnime (animeDataOf ''Monday'' abcElement)) ''score'' = Some JNull"
  using nan_score_is_delivered_as_null [of abcElement "''Monday''"]
  by (simp add: sample_scoreText parseFloat_abc)

section \<open>The image reference\<close>

text \<open>
  C7. Normalisation maps \<open>/images/anime/123.jpg\<close> to
  \<open>https://myanimelist.net/images/anime/123.webp\<close> and \<open>//cdn.example.com/x.png\<close> to
  \<open>https://cdn.example.com/x.webp\<close>. In general, for a reference that ends in a dot and
  one of jpg, jpeg, png, gif, has no question mark before that and does not contain
  \<open>.webp\<close>: when it starts with \<open>//\<close> the result is \<open>https:\<close>, the reference up to the
  extension and \<open>.webp\<close>; when it starts with a single \<open>/\<close> the result is the origin
  \<open>https://myanimelist.net\<close>, the reference up to the extension and \<open>.webp\<close>.
\<close>

theorem image_url_normalization:
  "normalizeImageUrl ''/images/anime/123.jpg''
     = ''https://myanimelist.net/images/anime/123.webp''
   \<and> normalizeImageUrl ''//cdn.example.com/x.png'' = ''https://cdn.example.com/x.webp''
   \<and> (ext \<in> set rasterExtensions \<and> CHR ''?'' \<notin> set stem
          \<and> \<not> includes_str (stem @ ''.'' @ ext) ''.webp'' \<longrightarrow>
        (startsWith stem ''//'' \<longrightarrow>
           normalizeImageUrl (stem @ ''.'' @ ext) = ''https:'' @ stem @ ''.webp'')
        \<and> (startsWith stem ''/'' \<and> \<not> startsWith stem ''//'' \<longrightarrow>
           normalizeImageUrl (stem @ ''.'' @ ext)
             = ''https://myanimelist.net'' @ stem @ ''.webp''))"
proof (intro conjI impI)
  show "normalizeImageUrl ''/images/anime/123.jpg''
      = ''https://myanimelist.net/images/anime/123.webp''"
    by (simp add: url_defs string_defs)
  show "normalizeImageUrl ''//cdn.example.com/x.png'' = ''https://cdn.example.com/x.webp''"
    by (simp add: url_defs string_defs)
next
  assume a: "ext \<in> set rasterExtensions \<and> CHR ''?'' \<notin> set stem
          \<and> \<not> includes_str (stem @ ''.'' @ ext) ''.webp''"
    and b: "startsWith stem ''//''"
  from b obtain t where stem: "stem = ''//'' @ t"
    by (auto simp: startsWith_def prefix_def)
  from a have "replaceExt ((''https:'' @ stem) @ CHR ''.'' # ext)
      = (''https:'' @ stem) @ ''.webp''"
    by (intro replaceExt_stem) auto
  moreover from a have "\<not> includes_str (''https:'' @ stem @ ''.'' @ ext) ''.webp''"
    by simp
  ultimately show "normalizeImageUrl (stem @ ''.'' @ ext) = ''https:'' @ stem @ ''.webp''"
    by (simp add: normalizeImageUrl_def startsWith_def stem)
next
  assume a: "ext \<in> set rasterExtensions \<and> CHR ''?'' \<notin> set stem
          \<and> \<not> includes_str (stem @ ''.'' @ ext) ''.webp''"
    and b: "startsWith stem ''/'' \<and> \<not> startsWith stem ''//''"
  from b obtain t where stem: "stem = ''/'' @ t" and t: "\<not> prefix ''/'' t"
    by (auto simp: startsWith_def prefix_def)
  from t have t': "\<not> prefix ''/'' (t @ ''.'' @ ext)" by (cases t) auto
  from a have "replaceExt ((''https://myanimelist.net'' @ stem) @ CHR ''.'' # ext)
      = (''https://myanimelist.net'' @ stem) @ ''.webp''"
    by (intro replaceExt_stem) auto
  moreover from a
  have "\<not> includes_str (''https://myanimelist.net'' @ stem @ ''.'' @ ext) ''.webp''"
    by simp
  ultimately show "normalizeImageUrl (stem @ ''.'' @ ext)
      = ''https://myanimelist.net'' @ stem @ ''.webp''"
    using t' by (simp add: normalizeImageUrl_def startsWith_def stem)
qed

theorem image_url_normalization_witness:
  "''jpg'' \<in> set rasterExtensions \<and> ''png'' \<in> set rasterExtensions
   \<and> CHR ''?'' \<notin> set ''/images/anime/123''
   \<and> \<not> includes_str ''/images/anime/123.jpg'' ''.webp''
   \<and> startsWith ''/images/anime/123'' ''/'' \<and> \<not> startsWith ''/images/anime/123'' ''//''
   \<and> normalizeImageUrl ''/images/anime/123.jpg''
       = ''https://myanimelist.net/images/anime/123.webp''
   \<and> CHR ''?'' \<notin> set ''//cdn.example.com/x''
   \<and> \<not> includes_str ''//cdn.example.com/x.png'' ''.webp''
   \<and> startsWith ''//cdn.example.com/x'' ''//''
   \<and> normalizeImageUrl ''//cdn.example.com/x.png'' = ''https://cdn.example.com/x.webp''"
  using image_url_normalization [of "''jpg''" "''/images/anime/123''"]
    image_url_normalization [of "''png''" "''//cdn.example.com/x''"]
  by (simp add: rasterExtensions_def startsWith_def)

text \<open>
  C8. The \<open>imageUrl\<close> of an emitted record is meant to be null or an absolute URL; the
  source introduces the prefixing with the comment \<open>Ensure we have a full URL for the
  image\<close>. On an entry whose image has \<open>src="images/anime/1.jpg"\<close>, a reference relative
  to the page, the scraper emits \<open>images/anime/1.webp\<close>: neither branch of the prefixing
  applies, and the reference stays relative.
\<close>

theorem relative_image_reference_stays_relative:
  "map (\<lambda>d. (dayName d, map (\<lambda>a. (title a, imageUrl a)) (anime d)))
       (scrapeDocument relativeDocument)
     = [(''Monday'', [(''Baz'', Some ''images/anime/1.webp'')])]
   \<and> \<not> startsWith ''images/anime/1.webp'' ''http''"
proof -
  have "filter (dayPresent relativeDocument) dayMappings = [(''monday'', ''Monday'')]"
    by (simp add: dayPresent_def select_def dayMappings_def relativeDocument_def)
  moreover have "find_seasonal_anime
      (select relativeDocument ''js-seasonal-anime-list-key-monday'') = [relativeElement]"
    by (simp add: find_seasonal_anime_def select_def relativeDocument_def)
  ultimately show ?thesis
    by (simp add: scrapeDocument_eq dayOf_def animeListOf_filter hasTitle_animeDataOf
          title_animeDataOf imageUrl_animeDataOf relative_titleOf relative_imageUrlOf
          orElse_def startsWith_def)
qed

section \<open>The info lines\<close>



section \<open>Two runs on the same markup\<close>

text \<open>
  C10. Two runs that fetch the same markup return the same schedule, whatever else
  differs between them (the status code of the successful response, the clock): the
  groups, their day names and their records are equal, in the same order, and so is the
  total; only \<open>lastUpdated\<close> follows the clock.
\<close>

theorem extraction_is_deterministic:
  assumes "ok r1" and "ok r2" and "body_text r1 = Inr html" and "body_text r2 = Inr html"
  shows "scrapeAnimeSchedule load (Resolved r1) = scrapeAnimeSchedule load (Resolved r2)
         \<and> (\<exists>sched.
              scheduleResponse load (Resolved r1) now1
                = Inr \<lparr> lastUpdated = now1 div 1000, total = totalEntries sched,
                        schedule = sched \<rparr>
              \<and> scheduleResponse load (Resolved r2) now2
                = Inr \<lparr> lastUpdated = now2 div 1000, total = totalEntries sched,
                        schedule = sched \<rparr>)"
  using assms by (simp add: scrapeAnimeSchedule_def scheduleResponse_def)

theorem extraction_is_deterministic_witness:
  "ok sampleResponse \<and> ok (sampleResponse \<lparr> status := 203 \<rparr>)
   \<and> body_text sampleResponse = Inr ''<html></html>''
   \<and> body_text (sampleResponse \<lparr> status := 203 \<rparr>) = Inr ''<html></html>''
   \<and> scrapeAnimeSchedule (\<lambda>_. sampleDocument) (Resolved sampleResponse)
       = scrapeAnimeSchedule (\<lambda>_. sampleDocument) (Resolved (sampleResponse \<lparr> status := 203 \<rparr>))
   \<and> (\<exists>sched.
        scheduleResponse (\<lambda>_. sampleDocument) (Resolved sampleResponse) 1700000000123
          = Inr \<lparr> lastUpdated = 1700000000, total = totalEntries sched, schedule = sched \<rparr>
        \<and> scheduleResponse (\<lambda>_. sampleDocument)
            (Resolved (sampleResponse \<lparr> status := 203 \<rparr>)) 1700000999000
          = Inr \<lparr> lastUpdated = 1700000999, total = totalEntries sched, schedule = sched \<rparr>)"
  using extraction_is_deterministic
    [of sampleResponse "sampleResponse \<lparr> status := 203 \<rparr>" "''<html></html>''"
        "\<lambda>_. sampleDocument" 1700000000123 1700000999000]
  by (simp add: sampleResponse_def)

end
